theory Spec2Isabelle
  imports Complex_Main
begin

section \<open>Knowledge distillation notebook: data model\<close>

text \<open>
  The notebook is Python on top of numpy and torch. Every exception the code can raise is
  a value of \<open>py_error\<close>, and a function that can raise returns \<open>py_error + 'a\<close>
  with \<open>Inl\<close> for the exception.

  Numbers are mathematical reals, not IEEE floats: rounding is not modelled. The one
  non-real value that the loss functions can produce from real inputs, the \<open>nan\<close> that
  \<open>torch.mean\<close> and \<open>np.mean\<close> return for an empty input, is written \<open>None\<close>.
\<close>

datatype py_error =
  ValueError | RuntimeError | TypeError | NameError | AttributeError
  | FileNotFoundError | AssertionError | ZeroDivisionError | IndexError

text \<open>
  An array as the notebook uses it: two-dimensional, with a shape and an element for every
  index inside the shape (\<open>elem t i j\<close> outside the shape is never read). A torch tensor
  is such an array of reals.
\<close>

record 'a ndarray =
  nrows :: nat
  ncols :: nat
  elem :: "nat \<Rightarrow> nat \<Rightarrow> 'a"

type_synonym tensor = "real ndarray"

definition of_rows :: "real list list \<Rightarrow> tensor" where
  "of_rows rs = \<lparr>nrows = length rs,
                 ncols = (case rs of [] \<Rightarrow> 0 | r # _ \<Rightarrow> length r),
                 elem = (\<lambda>i j. rs ! i ! j)\<rparr>"

definition same_shape :: "tensor \<Rightarrow> tensor \<Rightarrow> bool" where
  "same_shape a b = (nrows a = nrows b \<and> ncols a = ncols b)"

definition numel :: "tensor \<Rightarrow> nat" where
  "numel t = nrows t * ncols t"

text \<open>Slices \<open>t[:, :1]\<close> and \<open>t[:, 1:]\<close>.\<close>

definition first_col :: "tensor \<Rightarrow> tensor" where
  "first_col t = \<lparr>nrows = nrows t, ncols = min 1 (ncols t), elem = elem t\<rparr>"

definition rest_cols :: "tensor \<Rightarrow> tensor" where
  "rest_cols t = \<lparr>nrows = nrows t, ncols = ncols t - 1, elem = (\<lambda>i j. elem t i (j + 1))\<rparr>"

text \<open>
  Elementwise operations. A binary operation broadcasts as torch does: two sizes of a
  dimension are compatible when they are equal or one of them is 1, and the tensor whose
  size is 1 is repeated along that dimension; otherwise torch raises RuntimeError.
\<close>

definition bdim :: "nat \<Rightarrow> nat \<Rightarrow> nat option" where
  "bdim a b = (if a = b then Some a else if a = 1 then Some b
               else if b = 1 then Some a else None)"

definition bidx :: "nat \<Rightarrow> nat \<Rightarrow> nat" where
  "bidx n i = (if n = 1 then 0 else i)"

definition tbinop :: "(real \<Rightarrow> real \<Rightarrow> real) \<Rightarrow> tensor \<Rightarrow> tensor \<Rightarrow> py_error + tensor" where
  "tbinop f a b =
     (case bdim (nrows a) (nrows b) of
        None \<Rightarrow> Inl RuntimeError
      | Some r \<Rightarrow>
          (case bdim (ncols a) (ncols b) of
             None \<Rightarrow> Inl RuntimeError
           | Some c \<Rightarrow>
               Inr \<lparr>nrows = r, ncols = c,
                    elem = (\<lambda>i j. f (elem a (bidx (nrows a) i) (bidx (ncols a) j))
                                     (elem b (bidx (nrows b) i) (bidx (ncols b) j)))\<rparr>))"

definition tmap :: "(real \<Rightarrow> real) \<Rightarrow> tensor \<Rightarrow> tensor" where
  "tmap f t = \<lparr>nrows = nrows t, ncols = ncols t, elem = (\<lambda>i j. f (elem t i j))\<rparr>"

definition clamp :: "real \<Rightarrow> real \<Rightarrow> real \<Rightarrow> real" where
  \<comment> \<open>\<open>torch.clamp(x, lo, hi)\<close> on one element: \<open>min(max(x, lo), hi)\<close>.\<close>
  "clamp lo hi x = min (max x lo) hi"

definition tsum :: "tensor \<Rightarrow> real" where
  "tsum t = (\<Sum>i\<leftarrow>[0..<nrows t]. \<Sum>j\<leftarrow>[0..<ncols t]. elem t i j)"

definition torch_mean :: "tensor \<Rightarrow> real option" where
  \<comment> \<open>\<open>torch.mean\<close> over all elements; \<open>nan\<close> (None) for a tensor without elements.\<close>
  "torch_mean t = (if numel t = 0 then None else Some (tsum t / real (numel t)))"

section \<open>Loss functions\<close>

definition epsilon :: real where
  "epsilon = 1 / 10 ^ 7"

text \<open>
  \<open>focal_loss(y_true, y_pred, gamma)\<close>. The logarithm and the power are taken of
  clamped values only, which lie in \<open>[epsilon, 1 - epsilon]\<close>, so both have a positive
  argument (lemma \<open>clamp_epsilon_bounds\<close>).
\<close>

definition focal_loss :: "tensor \<Rightarrow> tensor \<Rightarrow> real \<Rightarrow> py_error + real option" where
  "focal_loss y_true y_pred gamma =
     (let y_pred' = tmap (clamp epsilon (1 - epsilon)) y_pred in
      case tbinop (*) (tmap uminus y_true) (tmap ln y_pred') of
        Inl e \<Rightarrow> Inl e
      | Inr cross_entropy \<Rightarrow>
          (let focal_weight = tmap (\<lambda>x. x powr gamma) (tmap (\<lambda>x. 1 - x) y_pred') in
           case tbinop (*) focal_weight cross_entropy of
             Inl e \<Rightarrow> Inl e
           | Inr t \<Rightarrow> Inr (torch_mean t)))"

text \<open>
  \<open>nn.BCELoss()(input, target)\<close> with the default mean reduction, as torch documents and
  implements it: ValueError when the two sizes differ, RuntimeError when an element of the
  input is outside \<open>[0, 1]\<close>, and each logarithm clamped from below at \<open>-100\<close> (so that
  \<open>log 0\<close> contributes \<open>-100\<close>, not \<open>-inf\<close>).
\<close>

definition clog :: "real \<Rightarrow> real" where
  "clog x = (if x \<le> 0 then - 100 else max (ln x) (- 100))"

definition all_elems :: "(real \<Rightarrow> bool) \<Rightarrow> tensor \<Rightarrow> bool" where
  "all_elems P t = list_all (\<lambda>i. list_all (\<lambda>j. P (elem t i j)) [0..<ncols t]) [0..<nrows t]"

definition bce_elem :: "real \<Rightarrow> real \<Rightarrow> real" where
  "bce_elem x y = - (y * clog x + (1 - y) * clog (1 - x))"

definition BCELoss :: "tensor \<Rightarrow> tensor \<Rightarrow> py_error + real option" where
  "BCELoss input target =
     (if \<not> same_shape target input then Inl ValueError
      else if \<not> all_elems (\<lambda>x. 0 \<le> x \<and> x \<le> 1) input then Inl RuntimeError
      else Inr (torch_mean \<lparr>nrows = nrows input, ncols = ncols input,
                            elem = (\<lambda>i j. bce_elem (elem input i j) (elem target i j))\<rparr>))"

text \<open>
  \<open>beta * fl_loss + (1 - beta) * distill_loss\<close> on the two scalars: \<open>nan\<close> as soon as
  one of them is \<open>nan\<close>.
\<close>

fun blend :: "real \<Rightarrow> real option \<Rightarrow> real option \<Rightarrow> real option" where
  "blend beta (Some fl) (Some dl) = Some (beta * fl + (1 - beta) * dl)"
| "blend beta _ _ = None"

definition gamma_default :: real where
  "gamma_default = 2"

definition beta_default :: real where
  "beta_default = 1 / 10"

text \<open>
  \<open>knowledge_distillation_loss(y_true, y_pred, beta)\<close>. The call of \<open>focal_loss\<close> passes
  no \<open>gamma\<close>, so it runs with the default.
\<close>

definition knowledge_distillation_loss :: "tensor \<Rightarrow> tensor \<Rightarrow> real \<Rightarrow> py_error + real option" where
  "knowledge_distillation_loss y_true y_pred beta =
     (let true_labels = first_col y_true;
          teacher_preds = rest_cols y_true;
          student_preds1 = first_col y_pred;
          student_preds2 = rest_cols y_pred in
      case focal_loss true_labels student_preds1 gamma_default of
        Inl e \<Rightarrow> Inl e
      | Inr fl_loss \<Rightarrow>
          (case BCELoss student_preds2 teacher_preds of
             Inl e \<Rightarrow> Inl e
           | Inr distill_loss \<Rightarrow> Inr (blend beta fl_loss distill_loss)))"

section \<open>Names defined in the notebook\<close>

text \<open>
  A Python name that is read but was never bound raises NameError. These are the global
  names that exist when the preprocessing cell runs: the names bound by the import cell,
  the classes and functions defined by the cells above it, and the variables that the
  preprocessing cell itself assigns before it calls the scaler. No cell imports
  \<open>scipy\<close>, and it is not a builtin.
\<close>

definition notebook_globals :: "string list" where
  "notebook_globals =
     [''torch'', ''nn'', ''optim'', ''Dataset'', ''DataLoader'', ''np'', ''pd'', ''KFold'',
      ''StandardScaler'', ''QuantileTransformer'', ''plt'', ''tqdm'', ''gc'', ''os'',
      ''warnings'',
      ''StudentModel'', ''focal_loss'', ''knowledge_distillation_loss'', ''CustomDataset'',
      ''train_model'', ''GaussRankScaler'',
      ''train'', ''test'', ''lgb_train'', ''add_features'', ''feature_cols'', ''X'', ''y'',
      ''X_test'', ''teacher_preds'', ''scaler'']"

definition name_defined :: "string \<Rightarrow> bool" where
  "name_defined n = (n \<in> set notebook_globals)"

section \<open>GaussRankScaler\<close>

text \<open>
  The attributes of a scaler object. \<open>__init__\<close> sets the first four (\<open>self.epsilon\<close> and
  \<open>self.range\<close> are \<open>scaler_epsilon\<close> and \<open>scaler_range\<close> here); \<open>divider\<close> does not exist
  until \<open>fit_transform\<close> assigns it.
\<close>

record GaussRankScaler =
  scaler_epsilon :: real
  lower :: real
  upper :: real
  scaler_range :: real
  divider :: "real option"

definition GaussRankScaler_init :: GaussRankScaler where
  "GaussRankScaler_init =
     (let eps = 1 / 10 ^ 9; lo = - 1 + eps; up = 1 - eps
      in \<lparr>scaler_epsilon = eps, lower = lo, upper = up, scaler_range = up - lo,
          divider = None\<rparr>)"

text \<open>
  \<open>np.argsort\<close> of one column: the indices that sort it. The model sorts stably (by
  insertion, as numpy does for short arrays); numpy's default \<open>quicksort\<close> leaves the
  order among equal values unspecified for long arrays.
\<close>

definition argsort :: "('a::linorder) list \<Rightarrow> nat list" where
  "argsort xs = sort_key (\<lambda>k. xs ! k) [0..<length xs]"

definition column :: "'a ndarray \<Rightarrow> nat \<Rightarrow> 'a list" where
  "column X c = map (\<lambda>r. elem X r c) [0..<nrows X]"

text \<open>
  \<open>fit_transform(self, X)\<close>, with \<open>scipy.special.erfinv\<close> as the parameter \<open>erfinv\<close>
  (HOL has no inverse error function). The result is the returned array or the exception,
  together with the scaler object after the call.

  \<open>j.min()\<close> raises ValueError on an array without elements. \<open>j / self.divider\<close> divides a
  numpy array by a Python float and so gives \<open>nan\<close> (None) instead of raising when the
  divider is 0, which happens for a single row, where every rank is 0.
\<close>

definition fit_transform ::
  "(real \<Rightarrow> real) \<Rightarrow> GaussRankScaler \<Rightarrow> tensor
     \<Rightarrow> (py_error + real option ndarray) \<times> GaussRankScaler" where
  "fit_transform erfinv self X =
     (let i = (\<lambda>c. argsort (column X c));
          j = (\<lambda>c. argsort (i c));
          all_j = concat (map j [0..<ncols X])
      in if all_j = [] then (Inl ValueError, self)
         else if Min (set all_j) \<noteq> 0 then (Inl AssertionError, self)
         else if int (Max (set all_j)) \<noteq> int (nrows X) - 1 then (Inl AssertionError, self)
         else if scaler_range self = 0 then (Inl ZeroDivisionError, self)
         else
           (let j_range = real_of_int (int (nrows X) - 1);
                d = j_range / scaler_range self;
                self' = self\<lparr>divider := Some d\<rparr>;
                transformed = (\<lambda>r c. if d = 0 then None
                                       else Some (real (j c ! r) / d - upper self))
            in if \<not> name_defined ''scipy'' then (Inl NameError, self')
               else (Inr \<lparr>nrows = nrows X, ncols = ncols X,
                          elem = (\<lambda>r c. map_option erfinv (transformed r c))\<rparr>, self')))"

text \<open>
  Calling \<open>scaler.name(arg)\<close>: the class defines two methods. A name that is neither a
  method nor an attribute of the object raises AttributeError; an attribute holds a
  float, which is not callable; \<open>__init__\<close> takes no argument besides \<open>self\<close>.
\<close>

datatype scaler_method = Method_init | Method_fit_transform

definition GaussRankScaler_methods :: "(string \<times> scaler_method) list" where
  "GaussRankScaler_methods =
     [(''__init__'', Method_init), (''fit_transform'', Method_fit_transform)]"

definition instance_attrs :: "GaussRankScaler \<Rightarrow> string list" where
  "instance_attrs self =
     [''epsilon'', ''lower'', ''upper'', ''range'']
     @ (case divider self of None \<Rightarrow> [] | Some _ \<Rightarrow> [''divider''])"

definition call_method ::
  "(real \<Rightarrow> real) \<Rightarrow> GaussRankScaler \<Rightarrow> string \<Rightarrow> tensor
     \<Rightarrow> (py_error + real option ndarray) \<times> GaussRankScaler" where
  "call_method erfinv self name arg =
     (if name \<in> set (instance_attrs self) then (Inl TypeError, self)
      else case map_of GaussRankScaler_methods name of
             None \<Rightarrow> (Inl AttributeError, self)
           | Some Method_init \<Rightarrow> (Inl TypeError, self)
           | Some Method_fit_transform \<Rightarrow> fit_transform erfinv self arg)"

text \<open>
  The three lines of the preprocessing cell that normalise the features:
  \<open>scaler = GaussRankScaler()\<close>, \<open>X = scaler.fit_transform(X)\<close>,
  \<open>X_test = scaler.transform(X_test)\<close>.
\<close>

definition normalize_features ::
  "(real \<Rightarrow> real) \<Rightarrow> tensor \<Rightarrow> tensor
     \<Rightarrow> py_error + (real option ndarray \<times> real option ndarray)" where
  "normalize_features erfinv X X_test =
     (let scaler = GaussRankScaler_init
      in case call_method erfinv scaler ''fit_transform'' X of
           (Inl e, _) \<Rightarrow> Inl e
         | (Inr X', scaler') \<Rightarrow>
             (case call_method erfinv scaler' ''transform'' X_test of
                (Inl e, _) \<Rightarrow> Inl e
              | (Inr X_test', _) \<Rightarrow> Inr (X', X_test')))"

section \<open>Training loop\<close>

text \<open>
  The floats that \<open>train_model\<close> compares and averages: a validation loss, \<open>float('inf')\<close>,
  or the \<open>nan\<close> that \<open>np.mean\<close> returns for an empty list. A comparison with \<open>nan\<close> is
  false.
\<close>

datatype pyfloat = Fin real | PosInf | NaN

fun lt :: "pyfloat \<Rightarrow> pyfloat \<Rightarrow> bool" where
  "lt (Fin a) (Fin b) = (a < b)"
| "lt (Fin a) PosInf = True"
| "lt _ _ = False"


fun the_fin :: "pyfloat \<Rightarrow> real" where
  "the_fin (Fin a) = a"
| "the_fin _ = 0"

definition np_mean_items :: "real list \<Rightarrow> pyfloat" where
  \<comment> \<open>\<open>np.mean\<close> of a list of finite floats\<close>
  "np_mean_items xs = (if xs = [] then NaN else Fin (sum_list xs / real (length xs)))"

definition np_mean :: "pyfloat list \<Rightarrow> pyfloat" where
  "np_mean xs =
     (if xs = [] then NaN
      else if NaN \<in> set xs then NaN
      else if PosInf \<in> set xs then PosInf
      else Fin (sum_list (map the_fin xs) / real (length xs)))"

text \<open>The parameters of a StudentModel, which is what a checkpoint file holds.\<close>

record student_params =
  in_features :: nat
  layer1_weight :: "nat \<Rightarrow> nat \<Rightarrow> real"
  layer1_bias :: "nat \<Rightarrow> real"
  output_weight :: "nat \<Rightarrow> nat \<Rightarrow> real"
  output_bias :: "nat \<Rightarrow> real"

text \<open>
  Files. \<open>best_model_fold f\<close> is the path \<open>best_model_fold_{f}.pt\<close>. The disk is the
  sequence of writes and removals so far, oldest first; the content of a file is what
  the last event on its path left.
\<close>

datatype path = best_model_fold nat

datatype fs_event = torch_save path student_params | os_remove path

fun apply_event :: "fs_event \<Rightarrow> (path \<rightharpoonup> student_params) \<Rightarrow> (path \<rightharpoonup> student_params)" where
  "apply_event (torch_save p v) m = m(p \<mapsto> v)"
| "apply_event (os_remove p) m = m(p := None)"

definition file_content :: "fs_event list \<Rightarrow> path \<Rightarrow> student_params option" where
  "file_content disk = fold apply_event disk Map.empty"

text \<open>
  What \<open>train_model\<close> takes from torch and sklearn, as parameters, for a state \<open>'m\<close> of
  model and optimizer (the variable \<open>fold\<close> of the source is \<open>fold_no\<close> here). The fold index stands for the rows that \<open>KFold\<close> put into the fold
  (random, \<open>shuffle=True\<close>), so the functions depend on it.
  \<^item> \<open>new_model f\<close>: the randomly initialised \<open>StudentModel(X.shape[1])\<close> and its Adam
    optimizer, built at the start of fold \<open>f\<close>.
  \<^item> \<open>train_epoch f e m\<close>: the state after one pass over the shuffled training batches of
    fold \<open>f\<close> in epoch \<open>e\<close>: forward, loss, backward and optimizer step for every batch.
  \<^item> \<open>val_losses f m\<close>: the list \<open>val_losses\<close> that the no-gradient pass over the validation
    batches of fold \<open>f\<close> collects, one \<open>knowledge_distillation_loss\<close> per batch.
  \<^item> \<open>state_dict m\<close>: the model parameters.
\<close>

record 'm trainer =
  new_model :: "nat \<Rightarrow> 'm"
  train_epoch :: "nat \<Rightarrow> nat \<Rightarrow> 'm \<Rightarrow> 'm"
  val_losses :: "nat \<Rightarrow> 'm \<Rightarrow> real list"
  state_dict :: "'m \<Rightarrow> student_params"

text \<open>The body of \<open>for epoch in range(epochs)\<close>, over the remaining epochs.\<close>

fun epoch_loop ::
  "'m trainer \<Rightarrow> nat \<Rightarrow> nat list \<Rightarrow> 'm \<times> pyfloat \<times> fs_event list
     \<Rightarrow> 'm \<times> pyfloat \<times> fs_event list" where
  "epoch_loop T fold_no [] s = s"
| "epoch_loop T fold_no (epoch # es) (model, best_val_loss, disk) =
     (let model' = train_epoch T fold_no epoch model;
          avg_val_loss = np_mean_items (val_losses T fold_no model')
      in if lt avg_val_loss best_val_loss
         then epoch_loop T fold_no es
                (model', avg_val_loss,
                 disk @ [torch_save (best_model_fold fold_no) (state_dict T model')])
         else epoch_loop T fold_no es (model', best_val_loss, disk))"

text \<open>The body of \<open>for fold, ... in enumerate(kfold.split(X))\<close>, over the remaining folds.\<close>

fun fold_loop ::
  "'m trainer \<Rightarrow> nat \<Rightarrow> nat list \<Rightarrow> pyfloat list \<times> fs_event list
     \<Rightarrow> pyfloat list \<times> fs_event list" where
  "fold_loop T epochs [] s = s"
| "fold_loop T epochs (fold_no # folds) (fold_scores, disk) =
     (case epoch_loop T fold_no [0..<epochs] (new_model T fold_no, PosInf, disk) of
        (model, best_val_loss, disk') \<Rightarrow>
          fold_loop T epochs folds (fold_scores @ [best_val_loss], disk'))"

text \<open>
  \<open>train_model(X, y, teacher_preds, n_splits, epochs, batch_size)\<close>. Of \<open>X\<close> the model
  keeps the number of rows, \<open>n_samples\<close>; \<open>y\<close> is the vector of labels; \<open>teacher_preds\<close> is
  the vector of teacher probabilities, or \<open>None\<close> when the caller passes Python's \<open>None\<close>;
  the batch size is part of the trainer.

  \<open>KFold(n_splits, shuffle=True)\<close> raises ValueError for \<open>n_splits \<le> 1\<close>, and
  \<open>kfold.split(X)\<close> raises ValueError for more splits than rows; otherwise it yields
  \<open>n_splits\<close> folds, and the training and validation indices of a fold together are all
  row indices. So in the first fold \<open>y[train_idx]\<close> or \<open>y[val_idx]\<close> raises IndexError
  when \<open>y\<close> is shorter than \<open>X\<close>, \<open>teacher_preds[train_idx]\<close> raises TypeError on \<open>None\<close>,
  and it or \<open>teacher_preds[val_idx]\<close> raises IndexError on a vector shorter than \<open>X\<close>. All
  of these happen before anything is written.
\<close>

definition train_model ::
  "'m trainer \<Rightarrow> nat \<Rightarrow> real list \<Rightarrow> real list option \<Rightarrow> int \<Rightarrow> int \<Rightarrow> fs_event list
     \<Rightarrow> (py_error + pyfloat) \<times> fs_event list" where
  "train_model T n_samples y teacher_preds n_splits epochs disk =
     (if n_splits \<le> 1 then (Inl ValueError, disk)
      else if int n_samples < n_splits then (Inl ValueError, disk)
      else if length y < n_samples then (Inl IndexError, disk)
      else case teacher_preds of
             None \<Rightarrow> (Inl TypeError, disk)
           | Some t \<Rightarrow>
               if length t < n_samples then (Inl IndexError, disk)
               else (case fold_loop T (nat epochs) [0..<nat n_splits] ([], disk) of
                       (fold_scores, disk') \<Rightarrow> (Inr (np_mean fold_scores), disk')))"

section \<open>The four experiments\<close>

text \<open>
  A call binds its keyword arguments to the parameters of the function; a keyword that
  is not a parameter raises TypeError before the body runs.
\<close>

definition train_model_params :: "string list" where
  "train_model_params =
     [''X'', ''y'', ''teacher_preds'', ''n_splits'', ''epochs'', ''batch_size'']"

definition call_train_model ::
  "'m trainer \<Rightarrow> nat \<Rightarrow> real list \<Rightarrow> real list option \<Rightarrow> string list \<Rightarrow> int \<Rightarrow> int
     \<Rightarrow> fs_event list \<Rightarrow> (py_error + pyfloat) \<times> fs_event list" where
  "call_train_model T n_samples y teacher_preds keywords n_splits epochs disk =
     (if list_ex (\<lambda>k. k \<notin> set train_model_params) keywords
      then (Inl TypeError, disk)
      else train_model T n_samples y teacher_preds n_splits epochs disk)"

definition params_n_splits :: int where
  "params_n_splits = 5"

definition params_epochs :: int where
  "params_epochs = 100"

definition params_batch_size :: nat where
  "params_batch_size = 1024"

text \<open>
  The calls of the four experiment cells on the notebook's \<open>X\<close> (its number of rows),
  \<open>y\<close> and \<open>teacher_preds\<close>, each with the keywords it passes. Experiments 1 and 3 pass
  \<open>None\<close> for the teacher predictions.
\<close>

definition train_simple_nn ::
  "'m trainer \<Rightarrow> nat \<Rightarrow> real list \<Rightarrow> fs_event list \<Rightarrow> (py_error + pyfloat) \<times> fs_event list" where
  "train_simple_nn T n_samples y disk =
     call_train_model T n_samples y None
       [''n_splits'', ''epochs'', ''batch_size'', ''criterion'']
       params_n_splits params_epochs disk"

definition experiment2 ::
  "'m trainer \<Rightarrow> nat \<Rightarrow> real list \<Rightarrow> real list \<Rightarrow> fs_event list
     \<Rightarrow> (py_error + pyfloat) \<times> fs_event list" where
  "experiment2 T n_samples y teacher_preds disk =
     call_train_model T n_samples y (Some teacher_preds)
       [''n_splits'', ''epochs'', ''batch_size'']
       params_n_splits params_epochs disk"

definition experiment3 ::
  "'m trainer \<Rightarrow> nat \<Rightarrow> real list \<Rightarrow> fs_event list \<Rightarrow> (py_error + pyfloat) \<times> fs_event list" where
  "experiment3 T n_samples y disk =
     call_train_model T n_samples y None
       [''n_splits'', ''epochs'', ''batch_size'', ''criterion'']
       params_n_splits params_epochs disk"

definition experiment4 ::
  "'m trainer \<Rightarrow> nat \<Rightarrow> real list \<Rightarrow> real list \<Rightarrow> fs_event list
     \<Rightarrow> (py_error + pyfloat) \<times> fs_event list" where
  "experiment4 T n_samples y teacher_preds disk =
     call_train_model T n_samples y (Some teacher_preds)
       [''n_splits'', ''epochs'', ''batch_size'', ''criterion'']
       params_n_splits params_epochs disk"

section \<open>Student model and inference\<close>

definition relu :: "real \<Rightarrow> real" where
  "relu x = max 0 x"

definition sigmoid :: "real \<Rightarrow> real" where
  "sigmoid x = 1 / (1 + exp (- x))"

definition linear ::
  "(nat \<Rightarrow> nat \<Rightarrow> real) \<Rightarrow> (nat \<Rightarrow> real) \<Rightarrow> nat \<Rightarrow> nat \<Rightarrow> tensor \<Rightarrow> tensor" where
  \<comment> \<open>\<open>nn.Linear(n_in, n_out)\<close> with weight \<open>W\<close> and bias \<open>b\<close>, on a batch of rows\<close>
  "linear W b n_in n_out x =
     \<lparr>nrows = nrows x, ncols = n_out,
      elem = (\<lambda>r out. (\<Sum>k\<leftarrow>[0..<n_in]. elem x r k * W out k) + b out)\<rparr>"

text \<open>
  \<open>StudentModel.forward\<close> on a two-dimensional batch, where \<open>nn.Flatten\<close> changes nothing.
  The first layer raises RuntimeError when the batch has another width than the layer.
\<close>

definition forward :: "student_params \<Rightarrow> tensor \<Rightarrow> py_error + tensor" where
  "forward m x =
     (if ncols x \<noteq> in_features m then Inl RuntimeError
      else Inr (tmap sigmoid
                  (linear (output_weight m) (output_bias m) 16 2
                     (tmap relu
                        (linear (layer1_weight m) (layer1_bias m) (in_features m) 16 x)))))"

text \<open>
  The batches of a DataLoader without shuffling over \<open>n\<close> rows: start and length of each,
  from row \<open>start\<close> on.
\<close>

function batch_ranges :: "nat \<Rightarrow> nat \<Rightarrow> nat \<Rightarrow> (nat \<times> nat) list" where
  "batch_ranges start n batch_size =
     (if batch_size = 0 \<or> n \<le> start then []
      else (start, min batch_size (n - start)) # batch_ranges (start + batch_size) n batch_size)"
  by pat_completeness auto
termination
  by (relation "measure (\<lambda>(start, n, batch_size). n - start)") auto

declare batch_ranges.simps [simp del]

definition take_rows :: "tensor \<Rightarrow> nat \<Rightarrow> nat \<Rightarrow> tensor" where
  "take_rows X start len = \<lparr>nrows = len, ncols = ncols X, elem = (\<lambda>r c. elem X (start + r) c)\<rparr>"

text \<open>The loop over \<open>test_loader\<close>: \<open>outputs[:, 0]\<close> of every batch, in order.\<close>

fun predict_batches :: "student_params \<Rightarrow> tensor \<Rightarrow> (nat \<times> nat) list \<Rightarrow> py_error + real list list" where
  "predict_batches m X [] = Inr []"
| "predict_batches m X ((start, len) # bs) =
     (case forward m (take_rows X start len) of
        Inl e \<Rightarrow> Inl e
      | Inr outputs \<Rightarrow>
          (case predict_batches m X bs of
             Inl e \<Rightarrow> Inl e
           | Inr fold_preds \<Rightarrow> Inr (column outputs 0 # fold_preds)))"

text \<open>
  One round of the loop over the folds. \<open>torch.load\<close> raises FileNotFoundError when the
  checkpoint does not exist, \<open>load_state_dict\<close> RuntimeError when the checkpoint belongs to
  a model of another input width than \<open>StudentModel(X.shape[1])\<close>, the DataLoader ValueError
  for a batch size of 0, and \<open>np.concatenate\<close> ValueError when there was no batch.
\<close>

definition predict_fold ::
  "fs_event list \<Rightarrow> nat \<Rightarrow> tensor \<Rightarrow> nat \<Rightarrow> nat \<Rightarrow> py_error + real list" where
  "predict_fold disk width X_test batch_size fold_no =
     (case file_content disk (best_model_fold fold_no) of
        None \<Rightarrow> Inl FileNotFoundError
      | Some m \<Rightarrow>
          if in_features m \<noteq> width then Inl RuntimeError
          else if batch_size = 0 then Inl ValueError
          else (case predict_batches m X_test (batch_ranges 0 (nrows X_test) batch_size) of
                  Inl e \<Rightarrow> Inl e
                | Inr fold_preds \<Rightarrow>
                    if fold_preds = [] then Inl ValueError else Inr (concat fold_preds)))"

fun predict_folds ::
  "fs_event list \<Rightarrow> nat \<Rightarrow> tensor \<Rightarrow> nat \<Rightarrow> nat list \<Rightarrow> py_error + real list list" where
  "predict_folds disk width X_test batch_size [] = Inr []"
| "predict_folds disk width X_test batch_size (fold_no # folds) =
     (case predict_fold disk width X_test batch_size fold_no of
        Inl e \<Rightarrow> Inl e
      | Inr fold_preds \<Rightarrow>
          (case predict_folds disk width X_test batch_size folds of
             Inl e \<Rightarrow> Inl e
           | Inr test_preds \<Rightarrow> Inr (fold_preds # test_preds)))"

definition mean_axis0 :: "real list list \<Rightarrow> nat \<Rightarrow> real option list" where
  \<comment> \<open>\<open>np.mean(test_preds, axis=0)\<close> for arrays of length \<open>n\<close>; \<open>nan\<close> when there is no array\<close>
  "mean_axis0 test_preds n =
     map (\<lambda>r. if test_preds = [] then None
               else Some ((\<Sum>p\<leftarrow>test_preds. p ! r) / real (length test_preds)))
       [0..<n]"

text \<open>
  The inference cell: predictions of every fold's checkpoint, their mean, the submission
  (rows of \<open>id\<close> and \<open>target\<close>, which \<open>to_csv\<close> writes), and the removal of the checkpoints.
  \<open>ids\<close> is the column \<open>test['id']\<close>, \<open>width\<close> is \<open>X.shape[1]\<close>. The DataFrame constructor
  raises ValueError when the two columns differ in length.
\<close>

definition inference ::
  "fs_event list \<Rightarrow> nat \<Rightarrow> tensor \<Rightarrow> int list
     \<Rightarrow> (py_error + (int \<times> real option) list) \<times> fs_event list" where
  "inference disk width X_test ids =
     (let folds = [0..<nat params_n_splits]
      in case predict_folds disk width X_test params_batch_size folds of
           Inl e \<Rightarrow> (Inl e, disk)
         | Inr test_preds \<Rightarrow>
             (let final_preds = mean_axis0 test_preds (nrows X_test)
              in if length ids \<noteq> length final_preds then (Inl ValueError, disk)
                 else (Inr (zip ids final_preds),
                       disk @ map (\<lambda>fold_no. os_remove (best_model_fold fold_no)) folds)))"

section \<open>Notions used in the statements\<close>

text \<open>
  Two arrays are equal as arrays when they have the same shape and the same element at
  every index inside it. \<open>col k t\<close> is column \<open>k\<close> of \<open>t\<close> as a tensor with one column.
\<close>

definition teq :: "'a ndarray \<Rightarrow> 'a ndarray \<Rightarrow> bool" where
  "teq a b = (nrows a = nrows b \<and> ncols a = ncols b \<and>
              (\<forall>i<nrows b. \<forall>j<ncols b. elem a i j = elem b i j))"

definition col :: "nat \<Rightarrow> 'a ndarray \<Rightarrow> 'a ndarray" where
  "col k t = \<lparr>nrows = nrows t, ncols = 1, elem = (\<lambda>i j. elem t i k)\<rparr>"






text \<open>A small trainer for worked examples: the state is a number, every training pass
  adds 1 to it, and the only validation batch has the loss \<open>\<bar>m - 2\<bar>\<close>.\<close>

definition demo_params :: "real \<Rightarrow> student_params" where
  "demo_params m = \<lparr>in_features = 1, layer1_weight = (\<lambda>_ _. m), layer1_bias = (\<lambda>_. 0),
                    output_weight = (\<lambda>_ _. 1), output_bias = (\<lambda>_. 0)\<rparr>"



section \<open>Properties of the loss functions\<close>

subsection \<open>Tensors\<close>

lemma bidx_inside: "i < n \<Longrightarrow> bidx n i = i"
  by (simp add: bidx_def)

lemma bidx_less_left: "bdim n m = Some r \<Longrightarrow> i < r \<Longrightarrow> bidx n i < n"
  by (auto simp: bdim_def bidx_def split: if_splits)

lemma bidx_less_right: "bdim m n = Some r \<Longrightarrow> i < r \<Longrightarrow> bidx n i < n"
  by (auto simp: bdim_def bidx_def split: if_splits)

lemma tsum_cong:
  assumes "nrows a = nrows b" "ncols a = ncols b"
    and "\<And>i j. i < nrows b \<Longrightarrow> j < ncols b \<Longrightarrow> elem a i j = elem b i j"
  shows "tsum a = tsum b"
proof -
  have "(\<Sum>j\<leftarrow>[0..<ncols b]. elem a i j) = (\<Sum>j\<leftarrow>[0..<ncols b]. elem b i j)"
    if "i < nrows b" for i
    using that assms(3) by (intro arg_cong[where f = sum_list] map_cong) auto
  then have "map (\<lambda>i. \<Sum>j\<leftarrow>[0..<ncols b]. elem a i j) [0..<nrows b]
           = map (\<lambda>i. \<Sum>j\<leftarrow>[0..<ncols b]. elem b i j) [0..<nrows b]"
    by simp
  then show ?thesis
    unfolding tsum_def assms(1,2) by (rule arg_cong)
qed

lemma torch_mean_cong:
  assumes "nrows a = nrows b" "ncols a = ncols b"
    and "\<And>i j. i < nrows b \<Longrightarrow> j < ncols b \<Longrightarrow> elem a i j = elem b i j"
  shows "torch_mean a = torch_mean b"
  using tsum_cong[OF assms] assms(1,2) by (simp add: torch_mean_def numel_def)

lemma teq_tmap: "teq a b \<Longrightarrow> teq (tmap f a) (tmap f b)"
  by (simp add: teq_def tmap_def)

lemma teq_torch_mean: "teq a b \<Longrightarrow> torch_mean a = torch_mean b"
  by (rule torch_mean_cong) (simp_all add: teq_def)

lemma teq_tbinop:
  assumes "teq a a'" "teq b b'"
  shows "(case tbinop f a b of Inl e \<Rightarrow> tbinop f a' b' = Inl e
          | Inr t \<Rightarrow> (\<exists>t'. tbinop f a' b' = Inr t' \<and> teq t t'))"
proof -
  have s: "nrows a = nrows a'" "ncols a = ncols a'" "nrows b = nrows b'" "ncols b = ncols b'"
    using assms by (simp_all add: teq_def)
  show ?thesis
  proof (cases "bdim (nrows a') (nrows b')")
    case None
    then show ?thesis by (simp add: tbinop_def s)
  next
    case r: (Some r)
    show ?thesis
    proof (cases "bdim (ncols a') (ncols b')")
      case None
      then show ?thesis by (simp add: tbinop_def s r)
    next
      case c: (Some c)
      have "elem a (bidx (nrows a') i) (bidx (ncols a') j)
            = elem a' (bidx (nrows a') i) (bidx (ncols a') j)"
        if "i < r" "j < c" for i j
        using assms(1) bidx_less_left[OF r that(1)] bidx_less_left[OF c that(2)]
        by (simp add: teq_def)
      moreover have "elem b (bidx (nrows b') i) (bidx (ncols b') j)
            = elem b' (bidx (nrows b') i) (bidx (ncols b') j)"
        if "i < r" "j < c" for i j
        using assms(2) bidx_less_right[OF r that(1)] bidx_less_right[OF c that(2)]
        by (simp add: teq_def)
      ultimately show ?thesis
        by (simp add: tbinop_def s r c teq_def)
    qed
  qed
qed

lemma all_elems_iff: "all_elems P t \<longleftrightarrow> (\<forall>i<nrows t. \<forall>j<ncols t. P (elem t i j))"
  by (auto simp: all_elems_def list_all_iff)

lemma first_col_teq: "ncols t = 2 \<Longrightarrow> teq (first_col t) (col 0 t)"
  by (simp add: teq_def first_col_def col_def)

lemma rest_cols_teq: "ncols t = 2 \<Longrightarrow> teq (rest_cols t) (col 1 t)"
  by (simp add: teq_def rest_cols_def col_def)

subsection \<open>Focal loss\<close>

lemma clamp_epsilon_bounds:
  "epsilon \<le> clamp epsilon (1 - epsilon) x \<and> clamp epsilon (1 - epsilon) x \<le> 1 - epsilon"
  by (simp add: clamp_def epsilon_def min_def max_def)

lemma clamp_pos: "0 < clamp epsilon (1 - epsilon) x" "0 < 1 - clamp epsilon (1 - epsilon) x"
  by (simp_all add: clamp_def epsilon_def min_def max_def)

lemma focal_loss_same_shape:
  assumes "same_shape y p"
  shows "focal_loss y p gamma =
     Inr (torch_mean \<lparr>nrows = nrows p, ncols = ncols p,
            elem = (\<lambda>i j. (1 - clamp epsilon (1 - epsilon) (elem p i j)) powr gamma
                            * (- elem y i j * ln (clamp epsilon (1 - epsilon) (elem p i j))))\<rparr>)"
  using assms
  apply (simp add: focal_loss_def Let_def tbinop_def bdim_def same_shape_def tmap_def)
  apply (rule torch_mean_cong)
    apply (simp_all add: bidx_inside)
  done

lemma teq_focal_loss:
  assumes "teq y y'" "teq p p'"
  shows "focal_loss y p gamma = focal_loss y' p' gamma"
proof -
  let ?c = "tmap (clamp epsilon (1 - epsilon))"
  have 1: "teq (tmap uminus y) (tmap uminus y')" "teq (tmap ln (?c p)) (tmap ln (?c p'))"
    "teq (tmap (\<lambda>x. x powr gamma) (tmap (\<lambda>x. 1 - x) (?c p)))
         (tmap (\<lambda>x. x powr gamma) (tmap (\<lambda>x. 1 - x) (?c p')))"
    using assms by (simp_all add: teq_tmap)
  show ?thesis
  proof (cases "tbinop (*) (tmap uminus y) (tmap ln (?c p))")
    case (Inl e)
    then show ?thesis using teq_tbinop[OF 1(1,2), of "(*)"] by (simp add: focal_loss_def)
  next
    case (Inr ce)
    then obtain ce' where ce': "tbinop (*) (tmap uminus y') (tmap ln (?c p')) = Inr ce'" "teq ce ce'"
      using teq_tbinop[OF 1(1,2), of "(*)"] by auto
    show ?thesis
      using teq_tbinop[OF 1(3) ce'(2), of "(*)"] Inr ce'(1)
      by (auto simp: focal_loss_def Let_def teq_torch_mean split: sum.splits)
  qed
qed

text \<open>
  C2. For labels and predictions of equal shape, \<open>focal_loss y p gamma\<close> is the mean over
  all elements of \<open>(1 - p') ^ gamma * (- y * log p')\<close>, where \<open>p'\<close> is \<open>p\<close> clamped into
  \<open>[epsilon, 1 - epsilon]\<close> (the mean of no element is \<open>nan\<close>). The clamped value is
  positive, so the logarithm never receives 0, and the default \<open>gamma\<close> is 2, for which the
  weight is the square of \<open>1 - p'\<close>.
\<close>

theorem focal_loss_is_clamped_mean:
  assumes "same_shape y p"
  shows "focal_loss y p gamma =
           Inr (if numel p = 0 then None
                else Some ((\<Sum>i\<leftarrow>[0..<nrows p]. \<Sum>j\<leftarrow>[0..<ncols p].
                              (1 - clamp epsilon (1 - epsilon) (elem p i j)) powr gamma
                              * (- elem y i j * ln (clamp epsilon (1 - epsilon) (elem p i j))))
                           / real (numel p)))
         \<and> (\<forall>x. epsilon \<le> clamp epsilon (1 - epsilon) x
                \<and> clamp epsilon (1 - epsilon) x \<le> 1 - epsilon
                \<and> 0 < clamp epsilon (1 - epsilon) x
                \<and> (1 - clamp epsilon (1 - epsilon) x) powr gamma_default
                    = (1 - clamp epsilon (1 - epsilon) x)\<^sup>2)
         \<and> gamma_default = 2"
proof -
  have "(1 - clamp epsilon (1 - epsilon) x) powr gamma_default
        = (1 - clamp epsilon (1 - epsilon) x)\<^sup>2" for x
    using clamp_pos(2)[of x] by (simp add: gamma_default_def)
  then show ?thesis
    using clamp_epsilon_bounds clamp_pos(1)
    by (simp add: focal_loss_same_shape[OF assms] torch_mean_def tsum_def numel_def
        gamma_default_def)
qed

theorem focal_loss_is_clamped_mean_witness:
  "same_shape (of_rows [[1], [0]]) (of_rows [[1 / 2], [1 / 4]])
   \<and> focal_loss (of_rows [[1], [0]]) (of_rows [[1 / 2], [1 / 4]]) gamma_default
       = Inr (Some (ln 2 / 8))"
proof -
  have s: "same_shape (of_rows [[1], [0]]) (of_rows [[1 / 2], [1 / 4]])"
    by (simp add: same_shape_def of_rows_def)
  have l: "ln (1 / 2 :: real) = - ln 2"
    by (simp add: ln_div)
  have "focal_loss (of_rows [[1], [0]]) (of_rows [[1 / 2], [1 / 4]]) gamma_default
          = Inr (Some (ln 2 / 8))"
    using focal_loss_is_clamped_mean[OF s, of gamma_default]
    by (simp add: of_rows_def numel_def clamp_def epsilon_def gamma_default_def l
        power2_eq_square)
  with s show ?thesis by simp
qed

subsection \<open>Distillation loss\<close>

lemma teq_BCELoss:
  assumes "teq x x'" "teq y y'"
  shows "BCELoss x y = BCELoss x' y'"
proof -
  have s: "nrows x = nrows x'" "ncols x = ncols x'" "nrows y = nrows y'" "ncols y = ncols y'"
    using assms by (simp_all add: teq_def)
  have a: "all_elems P x = all_elems P x'" for P
    using assms(1) by (simp add: all_elems_iff teq_def)
  have m: "same_shape y' x' \<Longrightarrow> torch_mean \<lparr>nrows = nrows x', ncols = ncols x',
                 elem = (\<lambda>i j. bce_elem (elem x i j) (elem y i j))\<rparr>
       = torch_mean \<lparr>nrows = nrows x', ncols = ncols x',
                 elem = (\<lambda>i j. bce_elem (elem x' i j) (elem y' i j))\<rparr>"
    using assms by (intro torch_mean_cong) (simp_all add: teq_def same_shape_def)
  show ?thesis
    using m by (simp add: BCELoss_def s a same_shape_def)
qed

lemma kd_composition:
  assumes "ncols y_true = 2" "ncols y_pred = 2"
  shows "knowledge_distillation_loss y_true y_pred beta =
     (case focal_loss (col 0 y_true) (col 0 y_pred) gamma_default of
        Inl e \<Rightarrow> Inl e
      | Inr fl \<Rightarrow> (case BCELoss (col 1 y_pred) (col 1 y_true) of
                     Inl e \<Rightarrow> Inl e
                   | Inr dl \<Rightarrow> Inr (blend beta fl dl)))"
proof -
  have f: "focal_loss (first_col y_true) (first_col y_pred) gamma_default
           = focal_loss (col 0 y_true) (col 0 y_pred) gamma_default"
    by (rule teq_focal_loss[OF first_col_teq[OF assms(1)] first_col_teq[OF assms(2)]])
  have b: "BCELoss (rest_cols y_pred) (rest_cols y_true) = BCELoss (col 1 y_pred) (col 1 y_true)"
    by (rule teq_BCELoss[OF rest_cols_teq[OF assms(2)] rest_cols_teq[OF assms(1)]])
  show ?thesis
    unfolding knowledge_distillation_loss_def Let_def f b ..
qed

lemma focal_loss_Some:
  "same_shape y p \<Longrightarrow> 0 < numel p \<Longrightarrow> \<exists>v. focal_loss y p gamma = Inr (Some v)"
  by (simp add: focal_loss_same_shape torch_mean_def numel_def)

lemma BCELoss_Some:
  "same_shape y x \<Longrightarrow> all_elems (\<lambda>v. 0 \<le> v \<and> v \<le> 1) x \<Longrightarrow> 0 < numel x
   \<Longrightarrow> \<exists>v. BCELoss x y = Inr (Some v)"
  by (simp add: BCELoss_def torch_mean_def numel_def)

lemma kd_returns:
  assumes "ncols y_true = 2" "ncols y_pred = 2" "nrows y_true = nrows y_pred" "0 < nrows y_pred"
    and "all_elems (\<lambda>x. 0 \<le> x \<and> x \<le> 1) (col 1 y_pred)"
  shows "\<exists>fl dl. focal_loss (col 0 y_true) (col 0 y_pred) gamma_default = Inr (Some fl)
            \<and> BCELoss (col 1 y_pred) (col 1 y_true) = Inr (Some dl)
            \<and> knowledge_distillation_loss y_true y_pred beta = Inr (Some (beta * fl + (1 - beta) * dl))"
proof -
  have ss: "same_shape (col 0 y_true) (col 0 y_pred)" "same_shape (col 1 y_true) (col 1 y_pred)"
    using assms(3) by (simp_all add: same_shape_def col_def)
  have n: "0 < numel (col 0 y_pred)" "0 < numel (col 1 y_pred)"
    using assms(4) by (simp_all add: numel_def col_def)
  obtain fl where fl: "focal_loss (col 0 y_true) (col 0 y_pred) gamma_default = Inr (Some fl)"
    using focal_loss_Some[OF ss(1) n(1)] by blast
  obtain dl where dl: "BCELoss (col 1 y_pred) (col 1 y_true) = Inr (Some dl)"
    using BCELoss_Some[OF ss(2) assms(5) n(2)] by blast
  show ?thesis
    using fl dl by (simp add: kd_composition[OF assms(1,2)])
qed

text \<open>
  C1. For a target matrix of two columns (true label, teacher probability) and a student
  prediction matrix of two columns, \<open>knowledge_distillation_loss\<close> is the focal loss of
  the first student column against the true labels, with the default \<open>gamma\<close>, and the
  binary cross-entropy of the second student column against the teacher probabilities,
  combined as \<open>beta * focal + (1 - beta) * BCE\<close>; an exception of either part is the
  exception of the whole. With as many rows in both matrices, at least one row and
  probabilities in the second student column, both parts are numbers and the result is
  exactly that weighted sum, with weights 0.1 and 0.9 for the default \<open>beta\<close>.
\<close>

theorem knowledge_distillation_loss_is_weighted_sum:
  assumes "ncols y_true = 2" and "ncols y_pred = 2"
  shows "knowledge_distillation_loss y_true y_pred beta =
           (case focal_loss (col 0 y_true) (col 0 y_pred) gamma_default of
              Inl e \<Rightarrow> Inl e
            | Inr fl \<Rightarrow>
                (case BCELoss (col 1 y_pred) (col 1 y_true) of
                   Inl e \<Rightarrow> Inl e
                 | Inr dl \<Rightarrow> Inr (blend beta fl dl)))
         \<and> (nrows y_true = nrows y_pred \<and> 0 < nrows y_pred
              \<and> all_elems (\<lambda>x. 0 \<le> x \<and> x \<le> 1) (col 1 y_pred)
            \<longrightarrow> (\<exists>fl dl. focal_loss (col 0 y_true) (col 0 y_pred) gamma_default = Inr (Some fl)
                  \<and> BCELoss (col 1 y_pred) (col 1 y_true) = Inr (Some dl)
                  \<and> knowledge_distillation_loss y_true y_pred beta
                      = Inr (Some (beta * fl + (1 - beta) * dl))
                  \<and> knowledge_distillation_loss y_true y_pred beta_default
                      = Inr (Some (1 / 10 * fl + 9 / 10 * dl))))"
proof (intro conjI impI)
  show "knowledge_distillation_loss y_true y_pred beta =
           (case focal_loss (col 0 y_true) (col 0 y_pred) gamma_default of
              Inl e \<Rightarrow> Inl e
            | Inr fl \<Rightarrow>
                (case BCELoss (col 1 y_pred) (col 1 y_true) of
                   Inl e \<Rightarrow> Inl e
                 | Inr dl \<Rightarrow> Inr (blend beta fl dl)))"
    by (rule kd_composition[OF assms])
next
  assume h: "nrows y_true = nrows y_pred \<and> 0 < nrows y_pred
              \<and> all_elems (\<lambda>x. 0 \<le> x \<and> x \<le> 1) (col 1 y_pred)"
  then obtain fl dl where
    1: "focal_loss (col 0 y_true) (col 0 y_pred) gamma_default = Inr (Some fl)"
       "BCELoss (col 1 y_pred) (col 1 y_true) = Inr (Some dl)"
    using kd_returns[OF assms, of beta] by blast
  have "knowledge_distillation_loss y_true y_pred b = Inr (Some (b * fl + (1 - b) * dl))" for b
    using 1 by (simp add: kd_composition[OF assms])
  from this[of beta] this[of beta_default] 1
  show "\<exists>fl dl. focal_loss (col 0 y_true) (col 0 y_pred) gamma_default = Inr (Some fl)
                  \<and> BCELoss (col 1 y_pred) (col 1 y_true) = Inr (Some dl)
                  \<and> knowledge_distillation_loss y_true y_pred beta
                      = Inr (Some (beta * fl + (1 - beta) * dl))
                  \<and> knowledge_distillation_loss y_true y_pred beta_default
                      = Inr (Some (1 / 10 * fl + 9 / 10 * dl))"
    by (simp add: beta_default_def)
qed

lemma ln_half_ge: "- 100 \<le> ln (1 / 2 :: real)"
proof -
  have "ln (2::real) < 1" by (rule ln_2_less_1)
  then show ?thesis by (simp add: ln_div)
qed

theorem knowledge_distillation_loss_is_weighted_sum_witness:
  "ncols (of_rows [[1, 3 / 4], [0, 1 / 4]]) = 2
   \<and> ncols (of_rows [[1 / 2, 1 / 2], [1 / 4, 1 / 2]]) = 2
   \<and> knowledge_distillation_loss (of_rows [[1, 3 / 4], [0, 1 / 4]])
         (of_rows [[1 / 2, 1 / 2], [1 / 4, 1 / 2]]) beta_default
       = Inr (Some (73 / 80 * ln 2))"
proof -
  let ?y = "of_rows [[1, 3 / 4], [0, 1 / 4]]" and ?p = "of_rows [[1 / 2, 1 / 2], [1 / 4, 1 / 2]]"
  have c: "ncols ?y = 2" "ncols ?p = 2"
    by (simp_all add: of_rows_def)
  have l: "ln (1 / 2 :: real) = - ln 2"
    by (simp add: ln_div)
  have m: "max (- ln 2) (- 100 :: real) = - ln 2"
    using ln_half_ge by (simp add: l)
  have f: "focal_loss (col 0 ?y) (col 0 ?p) gamma_default = Inr (Some (ln 2 / 8))"
    by (simp add: focal_loss_def Let_def tbinop_def bdim_def bidx_def tmap_def torch_mean_def
        numel_def tsum_def col_def of_rows_def clamp_def epsilon_def gamma_default_def l
        power2_eq_square)
  have b: "BCELoss (col 1 ?p) (col 1 ?y) = Inr (Some (ln 2))"
    by (simp add: BCELoss_def same_shape_def all_elems_def torch_mean_def numel_def tsum_def
        col_def of_rows_def bce_elem_def clog_def l m)
  have "knowledge_distillation_loss ?y ?p beta_default = Inr (Some (73 / 80 * ln 2))"
    unfolding knowledge_distillation_loss_is_weighted_sum[OF c, of beta_default, THEN conjunct1] f b
    by (simp add: beta_default_def)
  with c show ?thesis by simp
qed

subsection \<open>Focal loss at and around the label\<close>












section \<open>Properties of the scaler\<close>

lemma set_argsort: "set (argsort xs) = {0..<length xs}"
  by (simp add: argsort_def)

lemma length_argsort: "length (argsort xs) = length xs"
  by (simp add: argsort_def)

lemma set_ranks: "set (argsort (argsort (column X c))) = {0..<nrows X}"
  by (simp add: set_argsort length_argsort column_def)

lemma all_ranks:
  assumes "0 < nrows X" "0 < ncols X"
  shows "set (concat (map (\<lambda>c. argsort (argsort (column X c))) [0..<ncols X])) = {0..<nrows X}"
  using assms by (auto simp: set_ranks)

lemma Min_upt: "0 < n \<Longrightarrow> Min {0..<n::nat} = 0"
  by (metis Min_eqI atLeastLessThan_iff finite_atLeastLessThan le0)

lemma Max_upt: "0 < n \<Longrightarrow> Max {0..<n::nat} = n - 1"
  by (intro Max_eqI) auto

lemma init_range: "scaler_range GaussRankScaler_init = 2 - 2 / 10 ^ 9"
  by (simp add: GaussRankScaler_init_def Let_def)

lemma scipy_undefined: "\<not> name_defined ''scipy''"
  by (simp add: name_defined_def notebook_globals_def)

text \<open>
  C3. On every training matrix with at least one row and one column, \<open>fit_transform\<close>
  computes the ranks, passes both assertions and stores the divider \<open>(n - 1) / range\<close>,
  and then raises NameError where it reads \<open>scipy\<close>, a name the notebook never imports:
  it returns no transformed matrix.
\<close>

theorem fit_transform_raises_NameError:
  assumes "0 < nrows X" and "0 < ncols X"
  shows "fit_transform erfinv GaussRankScaler_init X =
           (Inl NameError,
            GaussRankScaler_init\<lparr>divider := Some ((real (nrows X) - 1) / (2 - 2 / 10 ^ 9))\<rparr>)"
proof -
  define all_j where "all_j = concat (map (\<lambda>c. argsort (argsort (column X c))) [0..<ncols X])"
  have s: "set all_j = {0..<nrows X}"
    unfolding all_j_def by (rule all_ranks[OF assms])
  have ne: "all_j \<noteq> []"
    using s assms(1) by auto
  have mn: "Min (set all_j) = 0" and mx: "int (Max (set all_j)) = int (nrows X) - 1"
    using assms(1) by (simp_all add: s Min_upt Max_upt of_nat_diff)
  have r: "scaler_range GaussRankScaler_init \<noteq> 0"
    by (simp add: init_range)
  show ?thesis
    unfolding fit_transform_def Let_def all_j_def[symmetric]
    using ne mn mx r scipy_undefined assms(1)
    by (simp add: init_range of_nat_diff)
qed

theorem fit_transform_raises_NameError_witness:
  "fit_transform (\<lambda>x. x) GaussRankScaler_init (of_rows [[3], [1], [2]]) =
     (Inl NameError, GaussRankScaler_init\<lparr>divider := Some (2 / (2 - 2 / 10 ^ 9))\<rparr>)"
  using fit_transform_raises_NameError[of "of_rows [[3], [1], [2]]" "\<lambda>x. x"]
  by (simp add: of_rows_def)

text \<open>
  C4. On the matrix with the columns \<open>3, 1, 2\<close> and \<open>10, 30, 20\<close>, \<open>fit_transform\<close> raises
  NameError, whatever \<open>erfinv\<close> is: there is no output whose columns could be monotonic in
  the input or have zero mean.
\<close>

theorem fit_transform_no_output:
  "fit_transform erfinv GaussRankScaler_init (of_rows [[3, 10], [1, 30], [2, 20]]) =
     (Inl NameError, GaussRankScaler_init\<lparr>divider := Some (2 / (2 - 2 / 10 ^ 9))\<rparr>)"
  by (simp add: fit_transform_def Let_def of_rows_def column_def argsort_def
      GaussRankScaler_init_def name_defined_def notebook_globals_def upt_conv_Cons)

lemma call_transform:
  "call_method erfinv self ''transform'' X_test = (Inl AttributeError, self)"
  by (simp add: call_method_def instance_attrs_def GaussRankScaler_methods_def
      split: option.split)

text \<open>
  C5. The class has no \<open>transform\<close>: calling it on a scaler in any state, fitted or not,
  with any data raises AttributeError and leaves the scaler as it is, and the three
  normalisation lines of the preprocessing cell end in an exception for every training
  and test matrix.
\<close>

theorem GaussRankScaler_has_no_transform:
  "call_method erfinv self ''transform'' X_test = (Inl AttributeError, self)
   \<and> (\<exists>e. normalize_features erfinv X X_test = Inl e)"
proof
  show "call_method erfinv self ''transform'' X_test = (Inl AttributeError, self)"
    by (rule call_transform)
  show "\<exists>e. normalize_features erfinv X X_test = Inl e"
    by (auto simp: normalize_features_def Let_def call_transform split: prod.splits sum.splits)
qed

section \<open>Properties of the training loop\<close>














subsection \<open>The experiment calls and the checkpoint files\<close>

lemma call_with_criterion:
  "call_train_model T n y t [''n_splits'', ''epochs'', ''batch_size'', ''criterion''] k e disk
   = (Inl TypeError, disk)"
  by (simp add: call_train_model_def train_model_params_def)

lemma train_model_None:
  "\<exists>e. train_model T n y None k ep disk = (Inl e, disk)"
  by (simp add: train_model_def)

text \<open>
  C7. Of the four experiment calls of \<open>train_model\<close>, three pass the keyword \<open>criterion\<close>,
  which is not a parameter of \<open>train_model\<close>: experiments 1 (\<open>train_simple_nn\<close>), 3 and 4
  raise TypeError before the body runs and leave the disk as it is. Only experiment 2
  enters \<open>train_model\<close>, with 5 folds and 100 epochs. Experiments 1 and 3 pass \<open>None\<close> for
  the teacher predictions, with which \<open>train_model\<close> raises for every number of folds and
  epochs, so they would not complete without the keyword either.
\<close>

theorem experiments_1_3_4_raise_TypeError:
  "train_simple_nn T n y disk = (Inl TypeError, disk)
   \<and> experiment3 T n y disk = (Inl TypeError, disk)
   \<and> experiment4 T n y t disk = (Inl TypeError, disk)
   \<and> experiment2 T n y t disk = train_model T n y (Some t) 5 100 disk
   \<and> (\<exists>e. train_model T n y None k ep disk = (Inl e, disk))"
  using train_model_None[of T n y k ep disk]
  by (simp add: train_simple_nn_def experiment3_def experiment4_def experiment2_def
      call_with_criterion call_train_model_def train_model_params_def
      params_n_splits_def params_epochs_def)















section \<open>Properties of the inference cell\<close>

lemma sigmoid_bounds: "0 < sigmoid x \<and> sigmoid x < 1"
proof -
  have "0 < exp (- x)" by simp
  then show ?thesis by (simp add: sigmoid_def add_pos_pos)
qed

lemma forward_ok:
  assumes "ncols x = in_features m"
  shows "\<exists>out. forward m x = Inr out \<and> nrows out = nrows x \<and> ncols out = 2
               \<and> (\<forall>r c. 0 < elem out r c \<and> elem out r c < 1)"
  using assms sigmoid_bounds by (simp add: forward_def tmap_def linear_def)

lemma forward_take_rows:
  assumes "forward m X = Inr out"
  shows "forward m (take_rows X start len) = Inr (take_rows out start len)"
  using assms
  by (auto simp: forward_def take_rows_def tmap_def linear_def split: if_splits)

lemma column_take_rows:
  "column (take_rows out start len) c = map (\<lambda>r. elem out r c) [start..<start + len]"
proof -
  have "map (\<lambda>r. elem out (start + r) c) [0..<len] = map (\<lambda>r. elem out r c) (map (\<lambda>r. start + r) [0..<len])"
    by simp
  also have "map (\<lambda>r. start + r) [0..<len] = [start..<start + len]"
    by (induction len) simp_all
  finally show ?thesis
    by (simp add: column_def take_rows_def)
qed

lemma predict_batches_all:
  assumes "forward m X = Inr out" "0 < bs"
  shows "\<exists>ps. predict_batches m X (batch_ranges start (nrows X) bs) = Inr ps
              \<and> concat ps = map (\<lambda>r. elem out r 0) [start..<nrows X]
              \<and> (start < nrows X \<longrightarrow> ps \<noteq> [])"
  using assms
proof (induction start "nrows X" bs rule: batch_ranges.induct)
  case (1 start bs)
  show ?case
  proof (cases "nrows X \<le> start")
    case True
    then have "batch_ranges start (nrows X) bs = []"
      by (subst batch_ranges.simps) simp
    with True show ?thesis by simp
  next
    case False
    define len where "len = min bs (nrows X - start)"
    have nz: "\<not> (bs = 0 \<or> nrows X \<le> start)"
      using False 1(3) by simp
    from 1(1)[OF nz 1(2,3)] obtain ps where ps:
      "predict_batches m X (batch_ranges (start + bs) (nrows X) bs) = Inr ps"
      "concat ps = map (\<lambda>r. elem out r 0) [start + bs..<nrows X]"
      by blast
    have r: "batch_ranges start (nrows X) bs = (start, len) # batch_ranges (start + bs) (nrows X) bs"
      using nz by (subst batch_ranges.simps) (simp add: len_def)
    have pb: "predict_batches m X (batch_ranges start (nrows X) bs)
          = Inr (column (take_rows out start len) 0 # ps)"
      by (simp add: r forward_take_rows[OF 1(2)] ps(1))
    have le: "start + len \<le> nrows X"
      using False unfolding len_def by linarith
    have "[start..<(start + len) + (nrows X - (start + len))]
          = [start..<start + len] @ [start + len..<(start + len) + (nrows X - (start + len))]"
      by (rule upt_add_eq_append) simp
    then have split: "[start..<nrows X] = [start..<start + len] @ [start + len..<nrows X]"
      using le by simp
    have rest: "[start + len..<nrows X] = [start + bs..<nrows X]"
      using False by (cases "bs \<le> nrows X - start") (simp_all add: len_def min_def)
    have "column (take_rows out start len) 0 @ concat ps = map (\<lambda>r. elem out r 0) [start..<nrows X]"
      unfolding column_take_rows ps(2) split rest by simp
    then show ?thesis
      by (simp add: pb)
  qed
qed

lemma predict_fold_ok:
  assumes "file_content disk (best_model_fold f) = Some m" "in_features m = width"
    and "0 < nrows X" "0 < bs" "forward m X = Inr out"
  shows "predict_fold disk width X bs f = Inr (map (\<lambda>r. elem out r 0) [0..<nrows X])"
proof -
  obtain ps where ps: "predict_batches m X (batch_ranges 0 (nrows X) bs) = Inr ps"
    "concat ps = map (\<lambda>r. elem out r 0) [0..<nrows X]" "ps \<noteq> []"
    using predict_batches_all[OF assms(5,4), of 0] assms(3) by blast
  show ?thesis
    using assms(1,2,4) ps by (simp add: predict_fold_def)
qed

lemma predict_folds_ok:
  assumes "\<forall>f\<in>set fs. \<exists>m. file_content disk (best_model_fold f) = Some m
              \<and> in_features m = width \<and> forward m X = Inr (outs f)"
    and "0 < nrows X" "0 < bs"
  shows "predict_folds disk width X bs fs
         = Inr (map (\<lambda>f. map (\<lambda>r. elem (outs f) r 0) [0..<nrows X]) fs)"
  using assms(1)
proof (induction fs)
  case Nil
  then show ?case by simp
next
  case (Cons f fs)
  then obtain m where m: "file_content disk (best_model_fold f) = Some m"
    "in_features m = width" "forward m X = Inr (outs f)"
    by auto
  have 1: "predict_fold disk width X bs f = Inr (map (\<lambda>r. elem (outs f) r 0) [0..<nrows X])"
    by (rule predict_fold_ok[OF m(1,2) assms(2,3) m(3)])
  have 2: "predict_folds disk width X bs fs
           = Inr (map (\<lambda>f. map (\<lambda>r. elem (outs f) r 0) [0..<nrows X]) fs)"
    by (rule Cons.IH) (use Cons.prems in simp)
  show ?case
    by (simp add: 1 2)
qed

lemma sum_list_unit_bounds:
  "\<forall>x\<in>set xs. 0 \<le> g x \<and> g x \<le> (1::real)
   \<Longrightarrow> 0 \<le> sum_list (map g xs) \<and> sum_list (map g xs) \<le> real (length xs)"
  by (induction xs) auto

lemma mean_unit_bounds:
  assumes "\<forall>x\<in>set xs. 0 \<le> g x \<and> g x \<le> (1::real)" "xs \<noteq> []"
  shows "0 \<le> sum_list (map g xs) / real (length xs) \<and> sum_list (map g xs) / real (length xs) \<le> 1"
  using sum_list_unit_bounds[OF assms(1)] assms(2) by (simp add: divide_le_eq)

lemma sum_nth_rows:
  assumes "r < n"
  shows "(\<Sum>p\<leftarrow>map (\<lambda>f. map (g f) [0..<n]) fs. p ! r) = (\<Sum>f\<leftarrow>fs. g f r)"
  using assms by (induction fs) simp_all

text \<open>
  C9. When the checkpoints of folds 0 to 4 exist and fit the model's input width, the test
  matrix has that width and at least one row, and \<open>test['id']\<close> has one entry per test
  row, the inference cell produces a submission with exactly one row per test row, in
  the order of the ids. The target of a row is the mean over the five folds of the first
  output of the fold's model on that row, whatever the batching, and since each output is
  a sigmoid it lies in \<open>[0, 1]\<close>.
\<close>

theorem submission_rows_and_range:
  assumes ckpt: "\<forall>f<nat params_n_splits. \<exists>m. file_content disk (best_model_fold f) = Some m
                   \<and> in_features m = width"
    and width: "ncols X_test = width" and rows: "0 < nrows X_test"
    and ids: "length ids = nrows X_test"
  shows "\<exists>targets outs.
           fst (inference disk width X_test ids) = Inr (zip ids targets)
           \<and> length (zip ids targets) = nrows X_test
           \<and> map fst (zip ids targets) = ids
           \<and> (\<forall>f<nat params_n_splits.
                  forward (the (file_content disk (best_model_fold f))) X_test = Inr (outs f))
           \<and> (\<forall>r<nrows X_test.
                  targets ! r = Some ((\<Sum>f\<leftarrow>[0..<nat params_n_splits]. elem (outs f) r 0)
                                      / real (nat params_n_splits)))
           \<and> (\<forall>r<nrows X_test. \<exists>v. targets ! r = Some v \<and> 0 \<le> v \<and> v \<le> 1)"
proof -
  let ?k = "nat params_n_splits" and ?n = "nrows X_test"
  let ?M = "\<lambda>f. the (file_content disk (best_model_fold f))"
  define outs where "outs f = (case forward (?M f) X_test of Inr out \<Rightarrow> out | Inl _ \<Rightarrow> X_test)" for f
  have M: "file_content disk (best_model_fold f) = Some (?M f)" "in_features (?M f) = width"
    if "f < ?k" for f
    using ckpt that by auto
  have fw: "forward (?M f) X_test = Inr (outs f)"
    and unit: "\<forall>r. 0 \<le> elem (outs f) r 0 \<and> elem (outs f) r 0 \<le> 1"
    if f: "f < ?k" for f
  proof -
    obtain out where out: "forward (?M f) X_test = Inr out"
      "\<forall>r c. 0 < elem out r c \<and> elem out r c < 1"
      using forward_ok[of X_test "?M f"] M(2)[OF f] width by auto
    show "forward (?M f) X_test = Inr (outs f)"
      by (simp add: outs_def out(1))
    show "\<forall>r. 0 \<le> elem (outs f) r 0 \<and> elem (outs f) r 0 \<le> 1"
      using out(2) by (simp add: outs_def out(1) less_imp_le)
  qed
  define preds where "preds = map (\<lambda>f. map (\<lambda>r. elem (outs f) r 0) [0..<?n]) [0..<?k]"
  define targets where "targets = mean_axis0 preds ?n"
  have ex: "\<forall>f\<in>set [0..<?k]. \<exists>m. file_content disk (best_model_fold f) = Some m
              \<and> in_features m = width \<and> forward m X_test = Inr (outs f)"
  proof
    fix f assume "f \<in> set [0..<?k]"
    then have f: "f < ?k" by simp
    show "\<exists>m. file_content disk (best_model_fold f) = Some m
              \<and> in_features m = width \<and> forward m X_test = Inr (outs f)"
      using M[OF f] fw[OF f] by blast
  qed
  have pf: "predict_folds disk width X_test params_batch_size [0..<?k] = Inr preds"
    unfolding preds_def
    by (rule predict_folds_ok[OF ex rows]) (simp add: params_batch_size_def)
  have k: "0 < ?k" "preds \<noteq> []" "length preds = ?k"
    by (simp_all add: params_n_splits_def preds_def)
  have len: "length targets = ?n"
    by (simp add: targets_def mean_axis0_def)
  have inf: "fst (inference disk width X_test ids) = Inr (zip ids targets)"
    using ids len by (simp add: inference_def Let_def pf targets_def[symmetric])
  have t: "targets ! r = Some ((\<Sum>f\<leftarrow>[0..<?k]. elem (outs f) r 0) / real ?k)"
    if r: "r < ?n" for r
  proof -
    have "targets ! r = Some ((\<Sum>p\<leftarrow>preds. p ! r) / real (length preds))"
      using r k(2) by (simp add: targets_def mean_axis0_def)
    moreover have "(\<Sum>p\<leftarrow>preds. p ! r) = (\<Sum>f\<leftarrow>[0..<?k]. elem (outs f) r 0)"
      unfolding preds_def by (rule sum_nth_rows[OF r])
    ultimately show ?thesis
      by (simp only: k(3))
  qed
  have b: "\<exists>v. targets ! r = Some v \<and> 0 \<le> v \<and> v \<le> 1" if "r < ?n" for r
  proof -
    have "\<forall>f\<in>set [0..<?k]. 0 \<le> elem (outs f) r 0 \<and> elem (outs f) r 0 \<le> 1"
      using unit by simp
    from mean_unit_bounds[OF this] k(1) show ?thesis
      by (simp add: t[OF that])
  qed
  have z: "length (zip ids targets) = ?n" "map fst (zip ids targets) = ids"
    using ids len by simp_all
  show ?thesis
    using inf z fw t b by blast
qed

theorem submission_rows_and_range_witness:
  "\<exists>targets.
     fst (inference (map (\<lambda>f. torch_save (best_model_fold f) (demo_params 0)) [0, 1, 2, 3, 4]) 1
            (of_rows [[0], [1]]) [10, 11]) = Inr (zip [10, 11] targets)
     \<and> length (zip [10, 11 :: int] targets) = 2
     \<and> (\<exists>v. targets ! 0 = Some v \<and> 0 \<le> v \<and> v \<le> 1)"
proof -
  let ?disk = "map (\<lambda>f. torch_save (best_model_fold f) (demo_params 0)) [0, 1, 2, 3, 4]"
  let ?X = "of_rows [[0], [1]]"
  have c: "\<forall>f<nat params_n_splits. \<exists>m. file_content ?disk (best_model_fold f) = Some m
              \<and> in_features m = 1"
    by (simp add: params_n_splits_def eval_nat_numeral less_Suc_eq file_content_def demo_params_def)
  have x: "ncols ?X = 1" "0 < nrows ?X" "length [10, 11 :: int] = nrows ?X"
    by (simp_all add: of_rows_def)
  from submission_rows_and_range[OF c x] obtain targets where
    "fst (inference ?disk 1 ?X [10, 11]) = Inr (zip [10, 11] targets)"
    "length (zip [10, 11 :: int] targets) = nrows ?X"
    "\<forall>r<nrows ?X. \<exists>v. targets ! r = Some v \<and> 0 \<le> v \<and> v \<le> 1"
    by blast
  then show ?thesis
    by (auto simp: of_rows_def)
qed

end
